theory Spec2Isabelle
  imports Main
begin

section \<open>Strings\<close>

text \<open>
  A \<open>wxString\<close> is a sequence of characters, each given by its code point, so that
  \<open>Length\<close> counts characters and the characters U+2212 and U+FFFD the parser writes
  are single elements. \<open>wx\<close> turns an ASCII literal of the source (\<open>wxT("...")\<close>) into
  such a string. The sources are read with \<open>wxUSE_UNICODE\<close> set, the default of the
  wxWidgets releases that provide \<open>wxXmlNode::GetAttribute\<close>.
\<close>

type_synonym wxString = "nat list"

definition wx :: "string \<Rightarrow> wxString" where
  "wx s = map of_char s"

text \<open>\<open>str.Replace(a, b)\<close> for one-character strings \<open>a\<close> and \<open>b\<close>: every occurrence.\<close>

definition Replace :: "wxString \<Rightarrow> nat \<Rightarrow> nat \<Rightarrow> wxString" where
  "Replace str a b = map (\<lambda>c. if c = a then b else c) str"

definition wxLeft :: "wxString \<Rightarrow> nat \<Rightarrow> wxString" where
  "wxLeft str n = take n str"

definition wxRight :: "wxString \<Rightarrow> nat \<Rightarrow> wxString" where
  "wxRight str n = drop (length str - n) str"

text \<open>The conversion \<open>%i\<close> of \<open>wxString::Format\<close>: a decimal numeral, with its sign.\<close>

fun dec_nat :: "nat \<Rightarrow> wxString" where
  "dec_nat n = (if n < 10 then [48 + n] else dec_nat (n div 10) @ [48 + n mod 10])"

declare dec_nat.simps [simp del]

definition Format_i :: "int \<Rightarrow> wxString" where
  "Format_i v = (if v < 0 then 45 # dec_nat (nat (- v)) else dec_nat (nat v))"

text \<open>
  \<open>wxString::Format(_("[%i digits]"), v)\<close>. The translation \<open>_()\<close> is taken in the
  untranslated locale, where it returns its argument.
\<close>

definition Format_digits :: "int \<Rightarrow> wxString" where
  "Format_digits v = wx ''['' @ Format_i v @ wx '' digits]''"

text \<open>
  A comparison of a \<open>size_t\<close> with an \<open>int\<close> converts the \<open>int\<close> to \<open>size_t\<close>
  (64 bits): a negative \<open>int\<close> becomes a huge unsigned number.
\<close>

definition as_size_t :: "int \<Rightarrow> int" where
  "as_size_t v = (if 0 \<le> v then v else v + 2 ^ 64)"

section \<open>The serialized document\<close>

datatype wxXmlNodeType =
  XML_ELEMENT_NODE | XML_TEXT_NODE | XML_CDATA_SECTION_NODE | XML_COMMENT_NODE

text \<open>
  A \<open>wxXmlNode\<close>: its type, name, content, attributes in document order, and children.
  A node pointer is a list of siblings: \<open>[]\<close> is \<open>NULL\<close>, the head is the node pointed
  to, and \<open>GetNext\<close> is the tail.
\<close>

datatype wxXmlNode =
  XmlNode (GetType: wxXmlNodeType) (GetName: wxString) (GetContent: wxString)
    (GetAttributes: "(wxString \<times> wxString) list") (GetChildren: "wxXmlNode list")

definition GetAttribute :: "wxXmlNode \<Rightarrow> wxString \<Rightarrow> wxString \<Rightarrow> wxString" where
  "GetAttribute node attr dflt =
     (case map_of (GetAttributes node) attr of None \<Rightarrow> dflt | Some v \<Rightarrow> v)"

definition first :: "'a list \<Rightarrow> 'a option" where
  "first xs = (case xs of [] \<Rightarrow> None | x # _ \<Rightarrow> Some x)"

text \<open>\<open>GetNodeContent\<close>: the content of the first text or CDATA child.\<close>

fun GetNodeContent_of :: "wxXmlNode list \<Rightarrow> wxString" where
  "GetNodeContent_of [] = []"
| "GetNodeContent_of (n # ns) =
     (if GetType n = XML_TEXT_NODE then GetContent n
      else if GetType n = XML_CDATA_SECTION_NODE then GetContent n
      else GetNodeContent_of ns)"

definition GetNodeContent :: "wxXmlNode \<Rightarrow> wxString" where
  "GetNodeContent node = GetNodeContent_of (GetChildren node)"

section \<open>Cells\<close>

text \<open>
  The cell types of \<open>Cell.h\<close>, with \<open>MC_TYPE_SUBSUBSECTION\<close>, which the parser names as
  well. The enumerations of text styles, fraction, sum and integral styles and block
  types are declared in headers that are not among the sources: their constants are
  the ones \<open>MathParser.cpp\<close> names.
\<close>

datatype CellType =
  MC_TYPE_DEFAULT | MC_TYPE_MAIN_PROMPT | MC_TYPE_PROMPT | MC_TYPE_LABEL | MC_TYPE_INPUT
  | MC_TYPE_ERROR | MC_TYPE_TEXT | MC_TYPE_SUBSECTION | MC_TYPE_SUBSUBSECTION
  | MC_TYPE_SECTION | MC_TYPE_TITLE | MC_TYPE_IMAGE | MC_TYPE_SLIDE | MC_TYPE_GROUP

datatype TextStyle =
  TS_DEFAULT | TS_VARIABLE | TS_NUMBER | TS_FUNCTION | TS_SPECIAL_CONSTANT
  | TS_GREEK_CONSTANT | TS_STRING | TS_LABEL | TS_USERLABEL | TS_ERROR

datatype FracStyle = FC_NORMAL | FC_CHOOSE | FC_DIFF

datatype SumStyle = SM_SUM | SM_PROD

datatype IntStyle = INT_DEF | INT_IDEF

datatype GroupType =
  GC_TYPE_CODE | GC_TYPE_IMAGE | GC_TYPE_PAGEBREAK | GC_TYPE_TEXT | GC_TYPE_TITLE
  | GC_TYPE_SECTION | GC_TYPE_SUBSECTION | GC_TYPE_SUBSUBSECTION

text \<open>The fields of the base class that the parser writes.\<close>

record CellBase =
  m_type :: CellType
  m_textStyle :: TextStyle
  m_highlight :: bool
  m_isHidden :: bool
  m_forceBreakLine :: bool
  m_breakLine :: bool
  m_exponentFlag :: bool
  m_altCopyText :: wxString

text \<open>
  A cell is its base fields and the data of its class. A cell pointer is the chain of
  cells reached from it through \<open>m_next\<close>: \<open>[]\<close> is \<open>NULL\<close>. The child slots of a
  composite cell hold such chains.
\<close>

datatype MathCell = Cell (base: CellBase) (body: CellBody)
and CellBody =
    TextCell wxString
  | EditorCell wxString
  | FracCell FracStyle "MathCell list" "MathCell list"
  | DiffCell "MathCell list" "MathCell list"
  | ExptCell bool "MathCell list" "MathCell list"
  | SubSupCell "MathCell list" "MathCell list" "MathCell list"
  | SubCell "MathCell list" "MathCell list"
  | AtCell "MathCell list" "MathCell list"
  | FunCell "MathCell list" "MathCell list"
  | SqrtCell "MathCell list"
  | AbsCell "MathCell list"
  | ConjugateCell "MathCell list"
  | ParenCell bool "MathCell list"
  | LimitCell "MathCell list" "MathCell list" "MathCell list"
  | SumCell SumStyle "MathCell list" "MathCell list" "MathCell list"
  | IntCell IntStyle "MathCell list" "MathCell list" "MathCell list" "MathCell list"
  | MatrCell bool bool bool bool "MathCell list list list"
  | ImgCell wxString bool bool bool
  | SlideShow bool "int option" "wxString list"
  | GroupCell GroupType wxString "MathCell list" "MathCell list" bool

type_synonym chain = "MathCell list"

text \<open>
  Modelled from the spec: the constructors of the cell classes are not among the
  sources. A new cell has no flag set, the default type and style, and no alternate
  copy text; a new text cell holds the string given to its constructor, the empty
  string when none is given.
\<close>

definition new_base :: CellBase where
  "new_base =
     \<lparr>m_type = MC_TYPE_DEFAULT, m_textStyle = TS_DEFAULT, m_highlight = False,
      m_isHidden = False, m_forceBreakLine = False, m_breakLine = False,
      m_exponentFlag = False, m_altCopyText = []\<rparr>"

definition new_TextCell :: "wxString \<Rightarrow> MathCell" where
  "new_TextCell text = Cell new_base (TextCell text)"

text \<open>
  Modelled from the spec: \<open>SetType\<close> is declared in \<open>Cell.h\<close> and defined in a file
  that is not among the sources. It stores the cell's type.
\<close>

definition SetType :: "CellType \<Rightarrow> MathCell \<Rightarrow> MathCell" where
  "SetType t c = Cell ((base c)\<lparr>m_type := t\<rparr>) (body c)"

text \<open>
  The setters \<open>Cell.h\<close> defines, each on one cell, and the assignment to the public
  member \<open>m_isHidden\<close>.
\<close>

definition SetStyle :: "TextStyle \<Rightarrow> MathCell \<Rightarrow> MathCell" where
  "SetStyle s c = Cell ((base c)\<lparr>m_textStyle := s\<rparr>) (body c)"

definition SetHighlight :: "bool \<Rightarrow> MathCell \<Rightarrow> MathCell" where
  "SetHighlight h c = Cell ((base c)\<lparr>m_highlight := h\<rparr>) (body c)"

definition SetAltCopyText :: "wxString \<Rightarrow> MathCell \<Rightarrow> MathCell" where
  "SetAltCopyText text c = Cell ((base c)\<lparr>m_altCopyText := text\<rparr>) (body c)"

definition ForceBreakLine :: "bool \<Rightarrow> MathCell \<Rightarrow> MathCell" where
  "ForceBreakLine force c =
     Cell ((base c)\<lparr>m_forceBreakLine := force, m_breakLine := force\<rparr>) (body c)"

definition SetHidden :: "bool \<Rightarrow> MathCell \<Rightarrow> MathCell" where
  "SetHidden h c = Cell ((base c)\<lparr>m_isHidden := h\<rparr>) (body c)"

text \<open>
  Modelled from the spec: \<open>SetExponentFlag\<close>, \<open>SetValue\<close> and \<open>GetValue\<close> are virtual,
  empty in the base class, and their overrides are not among the sources. The flag is
  recorded on the cell; a text or editor cell stores the string given to \<open>SetValue\<close> as
  its payload and returns it from \<open>GetValue\<close>; every other cell returns the empty string.
\<close>

definition SetExponentFlag :: "MathCell \<Rightarrow> MathCell" where
  "SetExponentFlag c = Cell ((base c)\<lparr>m_exponentFlag := True\<rparr>) (body c)"

definition SetValue :: "wxString \<Rightarrow> MathCell \<Rightarrow> MathCell" where
  "SetValue text c =
     (case body c of
        TextCell _ \<Rightarrow> Cell (base c) (TextCell text)
      | EditorCell _ \<Rightarrow> Cell (base c) (EditorCell text)
      | _ \<Rightarrow> c)"

definition GetValue :: "MathCell \<Rightarrow> wxString" where
  "GetValue c = (case body c of TextCell text \<Rightarrow> text | EditorCell text \<Rightarrow> text | _ \<Rightarrow> [])"

section \<open>The parser and its collaborators\<close>

text \<open>
  The collaborators the parser calls: the configuration store (a key that is absent
  reads as \<open>None\<close> and leaves the variable as it was), \<open>wxString::ToLong\<close>, the
  conversion \<open>%c\<close> of \<open>wxString::Format\<close>, the character class \<open>[[:cntrl:]]\<close> of
  \<open>wxRegEx\<close>, and \<open>wxXmlDocument::Load\<close> followed by \<open>GetRoot\<close>.
\<close>

record env =
  cfg_displayedDigits :: "int option"
  cfg_showLength :: "int option"
  ToLong :: "wxString \<Rightarrow> int option"
  Format_c :: "int \<Rightarrow> wxString"
  is_cntrl :: "nat \<Rightarrow> bool"
  Load :: "wxString \<Rightarrow> wxXmlNode option"

text \<open>
  The members of \<open>MathParser\<close> (\<open>m_fileSystem\<close> as whether it is set), the number of
  message boxes shown so far and the number of documents handed to the XML reader.
\<close>

record state =
  m_ParserStyle :: CellType
  m_FracStyle :: FracStyle
  m_highlight_ctx :: bool
  m_displayedDigits :: int
  m_fileSystem :: bool
  messageBoxes :: nat
  xmlLoads :: nat

text \<open>
  A call runs from a state to a result and a new state, or dereferences a null pointer
  (\<open>None\<close>).
\<close>

type_synonym 'a run = "state \<Rightarrow> ('a \<times> state) option"

definition return_run :: "'a \<Rightarrow> 'a run" where
  "return_run x st = Some (x, st)"

definition bind_run :: "'a run \<Rightarrow> ('a \<Rightarrow> 'b run) \<Rightarrow> 'b run" where
  "bind_run m f st = (case m st of None \<Rightarrow> None | Some (x, st') \<Rightarrow> f x st')"

definition null_deref :: "'a run" where
  "null_deref st = None"

section \<open>Text leaves\<close>

text \<open>
  \<open>MathParser::ParseText\<close>. The argument is the node pointer; the result is the pointer
  to the new cell, a chain of one cell. Lengths of strings are below \<open>2^31\<close>, so the
  cast \<open>(int) str.Length()\<close> is exact.
\<close>

definition ParseText :: "env \<Rightarrow> wxXmlNode option \<Rightarrow> TextStyle \<Rightarrow> state \<Rightarrow> chain \<times> state" where
  "ParseText env node style st =
     (let cell = new_TextCell [];
          str = (case node of None \<Rightarrow> [] | Some n \<Rightarrow> GetContent n)
      in if node \<noteq> None \<and> str \<noteq> [] then
           let str = Replace str 45 8722;
               (str, st) =
                 (if style = TS_NUMBER then
                    let dd = (case cfg_displayedDigits env of None \<Rightarrow> 100 | Some v \<Rightarrow> v);
                        dd = (if dd < 10 then 10 else dd);
                        st = st\<lparr>m_displayedDigits := dd\<rparr>
                    in if int (length str) > as_size_t dd then
                         let left = dd div 3;
                             left = (if left > 30 then 30 else left)
                         in (wxLeft str (nat left)
                               @ Format_digits (int (length str) - 2 * left)
                               @ wxRight str (nat left), st)
                       else (str, st)
                  else (str, st));
               cell = (if style \<noteq> TS_ERROR then SetType (m_ParserStyle st) cell
                       else SetType MC_TYPE_ERROR cell);
               cell = SetStyle style cell;
               cell = SetHighlight (m_highlight_ctx st) cell;
               cell = SetValue str cell
           in ([cell], st)
         else ([cell], st))"

text \<open>\<open>MathParser::ParseCharCode\<close>.\<close>

definition ParseCharCode :: "env \<Rightarrow> wxXmlNode option \<Rightarrow> TextStyle \<Rightarrow> state \<Rightarrow> chain \<times> state" where
  "ParseCharCode env node style st =
     (let cell = new_TextCell [];
          str = (case node of None \<Rightarrow> [] | Some n \<Rightarrow> GetContent n)
      in if node \<noteq> None \<and> str \<noteq> [] then
           let str = (case ToLong env str of Some code \<Rightarrow> Format_c env code | None \<Rightarrow> str);
               cell = SetValue str cell;
               cell = SetType (m_ParserStyle st) cell;
               cell = SetStyle style cell;
               cell = SetHighlight (m_highlight_ctx st) cell
           in ([cell], st)
         else ([cell], st))"

section \<open>The tag dispatch loop\<close>

text \<open>
  The recursion of the parser follows the document tree: \<open>ParseTag\<close> dispatches on
  the tag of a node, and the handler of the tag calls \<open>ParseTag\<close> on children of that
  node only. The model ties this knot along the tree. A linked node holds the node,
  its children as linked nodes, and the run of the dispatch branch for the node: what
  the branch computes and then assigns to \<open>cell\<close> or appends to it. \<open>link\<close> below
  builds the linked node by recursion on the document, so that the run it stores is
  \<open>dispatch\<close> on the node and its linked children (lemma \<open>handler_link\<close>). The loop
  of \<open>ParseTag\<close> reads the stored run where the source enters the chain of
  \<open>if (tagName == ...)\<close>.
\<close>

datatype lnode = Linked (raw: wxXmlNode) (sub: "lnode list") (handler: "chain run")

text \<open>
  Modelled from the spec: \<open>AppendCell\<close> is not among the sources. It appends a chain
  at the end of the sibling chain of \<open>this\<close>; appending \<open>NULL\<close> changes nothing.
\<close>

definition AppendCell :: "chain \<Rightarrow> chain \<Rightarrow> chain" where
  "AppendCell this p_next = this @ p_next"

text \<open>
  The two pointers of the loop. \<open>tmp\<close> is the chain it heads. \<open>cell\<close> is null, or
  points at a cell of the chain of \<open>tmp\<close> (by position), or points into a chain that
  \<open>tmp\<close> does not reach (kept from the cell pointed to on).
\<close>

datatype cursor = CNull | InHead nat | Apart chain

definition deref :: "chain \<Rightarrow> cursor \<Rightarrow> chain" where
  "deref tmp cell = (case cell of CNull \<Rightarrow> [] | InHead k \<Rightarrow> drop k tmp | Apart c \<Rightarrow> c)"

text \<open>
  The statement each branch of the dispatch ends with:
  \<open>if (cell == NULL) cell = r; else cell->AppendCell(r);\<close>
\<close>

definition assign_or_append :: "chain \<Rightarrow> cursor \<Rightarrow> chain \<Rightarrow> chain \<times> cursor" where
  "assign_or_append tmp cell r =
     (case cell of
        CNull \<Rightarrow> (tmp, if r = [] then CNull else Apart r)
      | InHead k \<Rightarrow> (AppendCell tmp r, InHead k)
      | Apart c \<Rightarrow> (tmp, Apart (AppendCell c r)))"

text \<open>\<open>cell->m_next\<close>, for a \<open>cell\<close> that is not null.\<close>

definition m_next :: "chain \<Rightarrow> cursor \<Rightarrow> cursor" where
  "m_next tmp cell =
     (case cell of
        CNull \<Rightarrow> CNull
      | InHead k \<Rightarrow> (if Suc k < length tmp then InHead (Suc k) else CNull)
      | Apart c \<Rightarrow> (if tl c = [] then CNull else Apart (tl c)))"

text \<open>\<open>cell->SetAltCopyText(altCopy)\<close>: a write through \<open>cell\<close>, which may be null.\<close>

definition set_altCopy :: "wxString \<Rightarrow> chain \<Rightarrow> cursor \<Rightarrow> (chain \<times> cursor) option" where
  "set_altCopy altCopy tmp cell =
     (case cell of
        CNull \<Rightarrow> None
      | InHead k \<Rightarrow> Some (tmp[k := SetAltCopyText altCopy (tmp ! k)], InHead k)
      | Apart c \<Rightarrow> Some (tmp, Apart (SetAltCopyText altCopy (hd c) # tl c)))"

text \<open>\<open>if (tmp != NULL) return tmp; return cell;\<close>\<close>

definition loop_result :: "chain \<Rightarrow> cursor \<Rightarrow> chain" where
  "loop_result tmp cell = (if tmp \<noteq> [] then tmp else deref tmp cell)"

text \<open>
  The \<open>while (node)\<close> loop of \<open>MathParser::ParseTag\<close>, from the dispatched branch on:
  the break for \<open>all = false\<close>, the bookkeeping of \<open>tmp\<close> and \<open>cell\<close>, the one-shot
  warning, the \<open>altCopy\<close> attribute, and the step to the next sibling.
\<close>

fun tag_loop :: "bool \<Rightarrow> lnode list \<Rightarrow> chain \<Rightarrow> cursor \<Rightarrow> bool \<Rightarrow> chain run" where
  "tag_loop all [] tmp cell warning st = Some (loop_result tmp cell, st)"
| "tag_loop all (node # rest) tmp cell warning st =
     (case handler node st of
        None \<Rightarrow> None
      | Some (r, st1) \<Rightarrow>
          (case assign_or_append tmp cell r of
             (tmp1, cell1) \<Rightarrow>
               if \<not> all then Some (loop_result tmp1 cell1, st1)
               else
                 (case (if cell1 \<noteq> CNull then
                          (if tmp1 = [] then (deref tmp1 cell1, InHead 0, warning, st1)
                           else (tmp1, m_next tmp1 cell1, warning, st1))
                        else if warning then
                          (tmp1, cell1, False, st1\<lparr>messageBoxes := Suc (messageBoxes st1)\<rparr>)
                        else (tmp1, cell1, warning, st1)) of
                    (tmp2, cell2, warning2, st2) \<Rightarrow>
                      (case map_of (GetAttributes (raw node)) (wx ''altCopy'') of
                         None \<Rightarrow> tag_loop all rest tmp2 cell2 warning2 st2
                       | Some altCopy \<Rightarrow>
                           (case set_altCopy altCopy tmp2 cell2 of
                              None \<Rightarrow> None
                            | Some (tmp3, cell3) \<Rightarrow> tag_loop all rest tmp3 cell3 warning2 st2)))))"

text \<open>\<open>MathParser::ParseTag(node, all)\<close>: \<open>tmp\<close> and \<open>cell\<close> start null, \<open>warning\<close> as \<open>all\<close>.\<close>

definition ParseTag :: "lnode list \<Rightarrow> bool \<Rightarrow> chain run" where
  "ParseTag node all = tag_loop all node [] CNull all"

text \<open>
  Modelled from the spec: the default arguments of \<open>ParseTag\<close>, \<open>ParseText\<close> and
  \<open>ParseCharCode\<close> are declared in \<open>MathParser.h\<close>, which is not among the sources.
  A call that leaves out \<open>all\<close> parses all siblings, as the pass-through of a tag's
  children requires; one that leaves out the style passes the default style.
\<close>

definition default_all :: bool where
  "default_all = True"

definition default_style :: TextStyle where
  "default_style = TS_DEFAULT"

text \<open>A call of a method through a cell pointer that may be null.\<close>

definition through :: "(MathCell \<Rightarrow> MathCell) \<Rightarrow> chain \<Rightarrow> chain run" where
  "through f p = (case p of [] \<Rightarrow> null_deref | c # cs \<Rightarrow> return_run (f c # cs))"

definition variable_base :: "state \<Rightarrow> CellBase" where
  "variable_base st = new_base\<lparr>m_type := m_ParserStyle st, m_textStyle := TS_VARIABLE\<rparr>"

section \<open>The handlers of the composite tags\<close>

text \<open>
  Each handler takes the node and \<open>node->GetChildren()\<close> as linked nodes; \<open>child =
  child->GetNext()\<close> is the tail. A handler that finds a required child missing deletes
  its cell and returns \<open>NULL\<close>. The cell is written here where the source returns it,
  with the values its setters were given.
\<close>

definition ParseFracTag :: "wxXmlNode \<Rightarrow> lnode list \<Rightarrow> chain run" where
  "ParseFracTag node children st =
     (let style = m_FracStyle st; highlight = m_highlight_ctx st; child = children
      in if child \<noteq> [] then
           bind_run (ParseTag child False) (\<lambda>num.
             let child = tl child
             in if child \<noteq> [] then
                  bind_run (ParseTag child False) (\<lambda>denom st.
                    let style = (if GetAttribute node (wx ''line'') [] = wx ''no''
                                 then FC_CHOOSE else style);
                        style = (if GetAttribute node (wx ''diffstyle'') [] = wx ''yes''
                                 then FC_DIFF else style)
                    in return_run
                         [Cell ((variable_base st)\<lparr>m_highlight := highlight\<rparr>)
                            (FracCell style num denom)] st)
                else return_run []) st
         else return_run [] st)"

definition ParseDiffTag :: "wxXmlNode \<Rightarrow> lnode list \<Rightarrow> chain run" where
  "ParseDiffTag node children st =
     (let child = children
      in if child \<noteq> [] then
           (let fc = m_FracStyle st
            in bind_run (ParseTag child False) (\<lambda>diff st.
                 let st = st\<lparr>m_FracStyle := fc\<rparr>; child = tl child
                 in if child \<noteq> [] then
                      bind_run (ParseTag child True) (\<lambda>b st.
                        return_run [Cell (variable_base st) (DiffCell diff b)] st) st
                    else return_run [] st)
               (st\<lparr>m_FracStyle := FC_DIFF\<rparr>))
         else return_run [] st)"

definition ParseSupTag :: "wxXmlNode \<Rightarrow> lnode list \<Rightarrow> chain run" where
  "ParseSupTag node children st =
     (let is_matrix = (GetAttributes node \<noteq> []); child = children
      in if child \<noteq> [] then
           bind_run (ParseTag child False) (\<lambda>b.
             let child = tl child
             in if child \<noteq> [] then
                  bind_run (ParseTag child False) (\<lambda>power.
                    bind_run (through SetExponentFlag power) (\<lambda>power st.
                      return_run [Cell (variable_base st) (ExptCell is_matrix b power)] st))
                else return_run []) st
         else return_run [] st)"

definition ParseSubSupTag :: "wxXmlNode \<Rightarrow> lnode list \<Rightarrow> chain run" where
  "ParseSubSupTag node children st =
     (let child = children
      in if child \<noteq> [] then
           bind_run (ParseTag child False) (\<lambda>b.
             let child = tl child
             in if child \<noteq> [] then
                  bind_run (ParseTag child False) (\<lambda>index.
                    bind_run (through SetExponentFlag index) (\<lambda>index.
                      let child = tl child
                      in if child \<noteq> [] then
                           bind_run (ParseTag child False) (\<lambda>power.
                             bind_run (through SetExponentFlag power) (\<lambda>power st.
                               return_run
                                 [Cell (variable_base st) (SubSupCell b index power)] st))
                         else return_run []))
                else return_run []) st
         else return_run [] st)"

definition ParseSubTag :: "wxXmlNode \<Rightarrow> lnode list \<Rightarrow> chain run" where
  "ParseSubTag node children st =
     (let child = children
      in if child \<noteq> [] then
           bind_run (ParseTag child False) (\<lambda>b.
             let child = tl child
             in if child \<noteq> [] then
                  bind_run (ParseTag child False) (\<lambda>index.
                    bind_run (through SetExponentFlag index) (\<lambda>index st.
                      return_run [Cell (variable_base st) (SubCell b index)] st))
                else return_run []) st
         else return_run [] st)"

definition ParseAtTag :: "wxXmlNode \<Rightarrow> lnode list \<Rightarrow> chain run" where
  "ParseAtTag node children st =
     (let child = children
      in if child \<noteq> [] then
           bind_run (ParseTag child False) (\<lambda>b st.
             let highlight = m_highlight_ctx st; child = tl child
             in if child \<noteq> [] then
                  bind_run (ParseTag child False) (\<lambda>index st.
                    return_run
                      [Cell ((variable_base st)\<lparr>m_highlight := highlight\<rparr>) (AtCell b index)]
                      st) st
                else return_run [] st) st
         else return_run [] st)"

definition ParseFunTag :: "wxXmlNode \<Rightarrow> lnode list \<Rightarrow> chain run" where
  "ParseFunTag node children st =
     (let child = children
      in if child \<noteq> [] then
           bind_run (ParseTag child False) (\<lambda>name.
             let child = tl child
             in if child \<noteq> [] then
                  (\<lambda>st. let b = variable_base st
                        in bind_run (ParseTag child False) (\<lambda>arg.
                             return_run [Cell b (FunCell name arg)]) st)
                else return_run []) st
         else return_run [] st)"

definition ParseSqrtTag :: "wxXmlNode \<Rightarrow> lnode list \<Rightarrow> chain run" where
  "ParseSqrtTag node children =
     bind_run (ParseTag children True) (\<lambda>inner st.
       return_run
         [Cell ((variable_base st)\<lparr>m_highlight := m_highlight_ctx st\<rparr>) (SqrtCell inner)] st)"

definition ParseAbsTag :: "wxXmlNode \<Rightarrow> lnode list \<Rightarrow> chain run" where
  "ParseAbsTag node children =
     bind_run (ParseTag children True) (\<lambda>inner st.
       return_run
         [Cell ((variable_base st)\<lparr>m_highlight := m_highlight_ctx st\<rparr>) (AbsCell inner)] st)"

definition ParseConjugateTag :: "wxXmlNode \<Rightarrow> lnode list \<Rightarrow> chain run" where
  "ParseConjugateTag node children =
     bind_run (ParseTag children True) (\<lambda>inner st.
       return_run
         [Cell ((variable_base st)\<lparr>m_highlight := m_highlight_ctx st\<rparr>)
            (ConjugateCell inner)] st)"

text \<open>
  \<open>SetInner(inner, type)\<close> of a parenthesis cell stores the chain and the type; a new
  parenthesis cell prints its parentheses.
\<close>

definition ParseParenTag :: "wxXmlNode \<Rightarrow> lnode list \<Rightarrow> chain run" where
  "ParseParenTag node children =
     bind_run (ParseTag children True) (\<lambda>inner st.
       return_run
         [Cell ((variable_base st)\<lparr>m_highlight := m_highlight_ctx st\<rparr>)
            (ParenCell (GetAttributes node = []) inner)] st)"

definition ParseLimitTag :: "wxXmlNode \<Rightarrow> lnode list \<Rightarrow> chain run" where
  "ParseLimitTag node children st =
     (let child = children
      in if child \<noteq> [] then
           bind_run (ParseTag child False) (\<lambda>name.
             let child = tl child
             in if child \<noteq> [] then
                  bind_run (ParseTag child False) (\<lambda>under.
                    let child = tl child
                    in if child \<noteq> [] then
                         bind_run (ParseTag child False) (\<lambda>b st.
                           return_run [Cell (variable_base st) (LimitCell name under b)] st)
                       else return_run [])
                else return_run []) st
         else return_run [] st)"

definition ParseSumTag :: "wxXmlNode \<Rightarrow> lnode list \<Rightarrow> chain run" where
  "ParseSumTag node children st =
     (let child = children;
          type = GetAttribute node (wx ''type'') (wx ''sum'');
          style = (if type = wx ''prod'' then SM_PROD else SM_SUM);
          highlight = m_highlight_ctx st
      in if child \<noteq> [] then
           bind_run (ParseTag child False) (\<lambda>under.
             let child = tl child
             in if child \<noteq> [] then
                  bind_run (if type \<noteq> wx ''lsum'' then ParseTag child False else return_run [])
                    (\<lambda>over.
                      let child = tl child
                      in if child \<noteq> [] then
                           bind_run (ParseTag child False) (\<lambda>b st.
                             return_run
                               [Cell ((variable_base st)\<lparr>m_highlight := highlight\<rparr>)
                                  (SumCell style under over b)] st)
                         else return_run [])
                else return_run []) st
         else return_run [] st)"

definition ParseIntTag :: "wxXmlNode \<Rightarrow> lnode list \<Rightarrow> chain run" where
  "ParseIntTag node children st =
     (let child = children; highlight = m_highlight_ctx st
      in if GetAttributes node = [] then
           (if child \<noteq> [] then
              bind_run (ParseTag child False) (\<lambda>under.
                let child = tl child
                in if child \<noteq> [] then
                     bind_run (ParseTag child False) (\<lambda>over.
                       let child = tl child
                       in if child \<noteq> [] then
                            bind_run (ParseTag child False) (\<lambda>b.
                              let child = tl child
                              in if child \<noteq> [] then
                                   bind_run (ParseTag child True) (\<lambda>var st.
                                     return_run
                                       [Cell ((variable_base st)\<lparr>m_highlight := highlight\<rparr>)
                                          (IntCell INT_DEF under over b var)] st)
                                 else return_run [])
                          else return_run [])
                   else return_run []) st
            else return_run [] st)
         else
           (if child \<noteq> [] then
              bind_run (ParseTag child False) (\<lambda>b.
                let child = tl child
                in if child \<noteq> [] then
                     bind_run (ParseTag child True) (\<lambda>var st.
                       return_run
                         [Cell ((variable_base st)\<lparr>m_highlight := highlight\<rparr>)
                            (IntCell INT_IDEF [] [] b var)] st)
                   else return_run []) st
            else return_run [] st))"

text \<open>The two nested loops of \<open>ParseTableTag\<close>: over the rows, and over the cells of a row.\<close>

fun table_cells :: "lnode list \<Rightarrow> chain list run" where
  "table_cells [] st = Some ([], st)"
| "table_cells (c # cells) st =
     (case ParseTag (c # cells) False st of
        None \<Rightarrow> None
      | Some (x, st1) \<Rightarrow>
          (case table_cells cells st1 of
             None \<Rightarrow> None
           | Some (xs, st2) \<Rightarrow> Some (x # xs, st2)))"

fun table_rows :: "lnode list \<Rightarrow> chain list list run" where
  "table_rows [] st = Some ([], st)"
| "table_rows (r # rows) st =
     (case table_cells (sub r) st of
        None \<Rightarrow> None
      | Some (x, st1) \<Rightarrow>
          (case table_rows rows st1 of
             None \<Rightarrow> None
           | Some (xs, st2) \<Rightarrow> Some (x # xs, st2)))"

definition ParseTableTag :: "wxXmlNode \<Rightarrow> lnode list \<Rightarrow> chain run" where
  "ParseTableTag node children st =
     (let highlight = m_highlight_ctx st;
          inference = (GetAttribute node (wx ''inference'') (wx ''false'') = wx ''true'');
          special = (if inference then True
                     else GetAttribute node (wx ''special'') (wx ''false'') = wx ''true'');
          colnames = (GetAttribute node (wx ''colnames'') (wx ''false'') = wx ''true'');
          rownames = (GetAttribute node (wx ''rownames'') (wx ''false'') = wx ''true'')
      in bind_run (table_rows children) (\<lambda>rows st.
           return_run
             [Cell ((variable_base st)\<lparr>m_highlight := highlight\<rparr>)
                (MatrCell special inference colnames rownames rows)] st) st)"

section \<open>Editors and document blocks\<close>

text \<open>The loop of \<open>ParseEditorTag\<close> over the children named \<open>line\<close>.\<close>

fun editor_lines :: "wxXmlNode list \<Rightarrow> wxString \<Rightarrow> wxString" where
  "editor_lines [] text = text"
| "editor_lines (line # rest) text =
     (if GetName line = wx ''line'' then
        editor_lines rest ((if text \<noteq> [] then text @ [10] else text) @ GetNodeContent line)
      else editor_lines rest text)"

definition ParseEditorTag :: "wxXmlNode \<Rightarrow> chain" where
  "ParseEditorTag node =
     (let type = GetAttribute node (wx ''type'') (wx ''input'');
          b = (if type = wx ''input'' then new_base\<lparr>m_type := MC_TYPE_INPUT\<rparr>
               else if type = wx ''text'' then new_base\<lparr>m_type := MC_TYPE_TEXT\<rparr>
               else if type = wx ''title'' then new_base\<lparr>m_type := MC_TYPE_TITLE\<rparr>
               else if type = wx ''section'' then new_base\<lparr>m_type := MC_TYPE_SECTION\<rparr>
               else if type = wx ''subsection'' then new_base\<lparr>m_type := MC_TYPE_SUBSECTION\<rparr>
               else if type = wx ''subsubsection''
                 then new_base\<lparr>m_type := MC_TYPE_SUBSUBSECTION\<rparr>
               else new_base)
      in [Cell b (EditorCell (editor_lines (GetChildren node) []))])"

text \<open>
  Modelled from the spec: the methods of \<open>GroupCell\<close> are not among the sources.
  \<open>SetEditableContent\<close> stores the editable text, \<open>AppendOutput\<close> appends a chain to the
  output chain, \<open>HideTree\<close> attaches a chain as the folded subtree, \<open>Hide\<close> stores the
  hidden flag. A block under construction is its editable text, its output chain and
  its folded subtree.
\<close>

type_synonym block = "wxString \<times> chain \<times> chain"

definition SetEditableContent :: "wxString \<Rightarrow> block \<Rightarrow> block" where
  "SetEditableContent text g = (case g of (_, out, hidden) \<Rightarrow> (text, out, hidden))"

definition AppendOutput :: "chain \<Rightarrow> block \<Rightarrow> block" where
  "AppendOutput c g = (case g of (text, out, hidden) \<Rightarrow> (text, out @ c, hidden))"

definition HideTree :: "chain \<Rightarrow> block \<Rightarrow> block" where
  "HideTree tree g = (case g of (text, out, _) \<Rightarrow> (text, out, tree))"

definition new_GroupCell :: "GroupType \<Rightarrow> block \<Rightarrow> bool \<Rightarrow> chain" where
  "new_GroupCell t g hide =
     (case g of (text, out, hidden) \<Rightarrow> [Cell new_base (GroupCell t text out hidden hide)])"

text \<open>The loops of \<open>ParseCellTag\<close> over the children of a block, one per block type.\<close>

fun code_children :: "lnode list \<Rightarrow> block \<Rightarrow> block run" where
  "code_children [] g st = Some (g, st)"
| "code_children (c # children) g st =
     (case (if GetName (raw c) = wx ''input'' then
              (case ParseTag (sub c) default_all st of
                 None \<Rightarrow> None
               | Some ([], _) \<Rightarrow> None
               | Some (editor # _, st1) \<Rightarrow> Some (SetEditableContent (GetValue editor) g, st1))
            else Some (g, st)) of
        None \<Rightarrow> None
      | Some (g1, st1) \<Rightarrow>
          (case (if GetName (raw c) = wx ''output'' then
                   (case ParseTag (sub c) default_all st1 of
                      None \<Rightarrow> None
                    | Some (tag, st2) \<Rightarrow>
                        Some (if tag \<noteq> [] then AppendOutput tag g1 else g1, st2))
                 else Some (g1, st1)) of
             None \<Rightarrow> None
           | Some (g2, st2) \<Rightarrow> code_children children g2 st2))"

fun image_children :: "lnode list \<Rightarrow> block \<Rightarrow> block run" where
  "image_children [] g st = Some (g, st)"
| "image_children (c # children) g st =
     (if GetName (raw c) = wx ''editor'' then
        (case ParseEditorTag (raw c) of
           [] \<Rightarrow> None
         | ed # _ \<Rightarrow> image_children children (SetEditableContent (GetValue ed) g) st)
      else
        (case ParseTag (c # children) default_all st of
           None \<Rightarrow> None
         | Some (out, st1) \<Rightarrow> image_children children (AppendOutput out g) st1))"

text \<open>
  The loop over the cells of a \<open>fold\<close> child. \<open>built\<close> holds the cells already linked
  before \<open>last\<close> (here \<open>last_cell\<close>); \<open>last->m_next = cell\<close> cuts whatever followed it.
\<close>

fun fold_cells :: "lnode list \<Rightarrow> chain \<Rightarrow> chain \<Rightarrow> chain run" where
  "fold_cells [] built last_cell st = Some (built @ last_cell, st)"
| "fold_cells (x # xmlcells) built last_cell st =
     (case ParseTag (x # xmlcells) False st of
        None \<Rightarrow> None
      | Some (cell, st1) \<Rightarrow>
          (case last_cell of
             [] \<Rightarrow> None
           | l # _ \<Rightarrow> (if cell = [] then None else fold_cells xmlcells (built @ [l]) cell st1)))"

fun section_children :: "lnode list \<Rightarrow> block \<Rightarrow> block run" where
  "section_children [] g st = Some (g, st)"
| "section_children (c # children) g st =
     (if GetName (raw c) = wx ''editor'' then
        (case ParseEditorTag (raw c) of
           [] \<Rightarrow> None
         | ed # _ \<Rightarrow> section_children children (SetEditableContent (GetValue ed) g) st)
      else if GetName (raw c) = wx ''fold'' then
        (case sub c of
           [] \<Rightarrow> section_children children g st
         | x # xmlcells \<Rightarrow>
             (case ParseTag (x # xmlcells) False st of
                None \<Rightarrow> None
              | Some (tree, st1) \<Rightarrow>
                  (case fold_cells xmlcells [] tree st1 of
                     None \<Rightarrow> None
                   | Some (tree, st2) \<Rightarrow>
                       section_children children
                         (if tree \<noteq> [] then HideTree tree g else g) st2)))
      else section_children children g st)"

text \<open>\<open>MathParser::ParseCellTag\<close>.\<close>

definition ParseCellTag :: "wxXmlNode \<Rightarrow> lnode list \<Rightarrow> chain run" where
  "ParseCellTag node children st =
     (let hide = (GetAttribute node (wx ''hide'') (wx ''false'') = wx ''true'');
          type = GetAttribute node (wx ''type'') (wx ''text'');
          sectioning_level = GetAttribute node (wx ''sectioning_level'') (wx ''0'');
          g = ([], [], [])
      in if type = wx ''code'' then
           bind_run (code_children children g)
             (\<lambda>g. return_run (new_GroupCell GC_TYPE_CODE g hide)) st
         else if type = wx ''image'' then
           bind_run (image_children children g)
             (\<lambda>g. return_run (new_GroupCell GC_TYPE_IMAGE g hide)) st
         else if type = wx ''pagebreak'' then
           return_run (new_GroupCell GC_TYPE_PAGEBREAK g hide) st
         else if type = wx ''text'' then
           bind_run (ParseTag children default_all) (\<lambda>editor.
             case editor of
               [] \<Rightarrow> null_deref
             | e # _ \<Rightarrow>
                 return_run (new_GroupCell GC_TYPE_TEXT (SetEditableContent (GetValue e) g) hide))
             st
         else
           (case (if type = wx ''title'' then Some GC_TYPE_TITLE
                  else if type = wx ''section'' then Some GC_TYPE_SECTION
                  else if type = wx ''subsection'' then
                    (if sectioning_level \<noteq> wx ''4'' then Some GC_TYPE_SUBSECTION
                     else Some GC_TYPE_SUBSUBSECTION)
                  else if type = wx ''subsubsection'' then Some GC_TYPE_SUBSUBSECTION
                  else None) of
              None \<Rightarrow> return_run [] st
            | Some t \<Rightarrow>
                bind_run (section_children children g)
                  (\<lambda>g. return_run (new_GroupCell t g hide)) st))"

section \<open>The dispatch on the tag name\<close>

definition total_run :: "(state \<Rightarrow> 'a \<times> state) \<Rightarrow> 'a run" where
  "total_run f st = Some (f st)"

text \<open>\<open>wxStringTokenizer(str, ";")\<close>: the pieces between semicolons.\<close>

fun tokens :: "wxString \<Rightarrow> wxString \<Rightarrow> wxString list" where
  "tokens [] tok = [tok]"
| "tokens (c # cs) tok = (if c = 59 then tok # tokens cs [] else tokens cs (tok @ [c]))"

text \<open>
  The chain of \<open>if (tagName == ...)\<close> in the loop of \<open>MathParser::ParseTag\<close>: what the
  branch for the node's tag computes and then assigns to \<open>cell\<close> or appends to it. A
  tag without a branch and without children assigns nothing, as a null result does.
\<close>

definition dispatch :: "env \<Rightarrow> wxXmlNode \<Rightarrow> lnode list \<Rightarrow> chain run" where
  "dispatch env node children =
     (if GetType node = XML_ELEMENT_NODE then
        (let tagName = GetName node; text = first (GetChildren node)
         in if tagName = wx ''v'' then total_run (ParseText env text TS_VARIABLE)
            else if tagName = wx ''t'' then
              total_run (ParseText env text
                (if GetAttribute node (wx ''type'') [] = wx ''error'' then TS_ERROR
                 else TS_DEFAULT))
            else if tagName = wx ''n'' then total_run (ParseText env text TS_NUMBER)
            else if tagName = wx ''h'' then
              bind_run (total_run (ParseText env text default_style)) (through (SetHidden True))
            else if tagName = wx ''p'' then ParseParenTag node children
            else if tagName = wx ''f'' then ParseFracTag node children
            else if tagName = wx ''e'' then ParseSupTag node children
            else if tagName = wx ''i'' then ParseSubTag node children
            else if tagName = wx ''fn'' then ParseFunTag node children
            else if tagName = wx ''g'' then total_run (ParseText env text TS_GREEK_CONSTANT)
            else if tagName = wx ''s'' then total_run (ParseText env text TS_SPECIAL_CONSTANT)
            else if tagName = wx ''fnm'' then total_run (ParseText env text TS_FUNCTION)
            else if tagName = wx ''q'' then ParseSqrtTag node children
            else if tagName = wx ''d'' then ParseDiffTag node children
            else if tagName = wx ''sm'' then ParseSumTag node children
            else if tagName = wx ''in'' then ParseIntTag node children
            else if tagName = wx ''mspace'' then return_run [new_TextCell (wx '' '')]
            else if tagName = wx ''at'' then ParseAtTag node children
            else if tagName = wx ''a'' then ParseAbsTag node children
            else if tagName = wx ''cj'' then ParseConjugateTag node children
            else if tagName = wx ''ie'' then ParseSubSupTag node children
            else if tagName = wx ''lm'' then ParseLimitTag node children
            else if tagName = wx ''r'' then ParseTag children default_all
            else if tagName = wx ''tb'' then ParseTableTag node children
            else if tagName = wx ''mth'' \<or> tagName = wx ''line'' then
              bind_run (ParseTag children default_all) (\<lambda>tmp.
                case tmp of
                  [] \<Rightarrow> return_run [new_TextCell (wx '' '')]
                | c # cs \<Rightarrow> return_run (ForceBreakLine True c # cs))
            else if tagName = wx ''lbl'' then
              bind_run
                (total_run (ParseText env text
                   (if GetAttribute node (wx ''userdefined'') (wx ''no'') \<noteq> wx ''yes''
                    then TS_LABEL else TS_USERLABEL)))
                (through (ForceBreakLine True))
            else if tagName = wx ''st'' then total_run (ParseText env text TS_STRING)
            else if tagName = wx ''hl'' then
              (\<lambda>st. let highlight = m_highlight_ctx st
                    in bind_run (ParseTag children default_all)
                         (\<lambda>tmp st. return_run tmp (st\<lparr>m_highlight_ctx := highlight\<rparr>))
                         (st\<lparr>m_highlight_ctx := True\<rparr>))
            else if tagName = wx ''img'' then
              (case text of
                 None \<Rightarrow> null_deref
               | Some t \<Rightarrow> (\<lambda>st.
                   let filename = GetContent t;
                       rect = (if GetAttribute node (wx ''rect'') (wx ''true'') = wx ''false''
                               then False else True)
                   in return_run
                        [Cell new_base
                           (if m_fileSystem st then ImgCell filename False True rect
                            else if GetAttribute node (wx ''del'') (wx ''yes'') \<noteq> wx ''no''
                              then ImgCell filename True False rect
                            else ImgCell filename False False rect)] st))
            else if tagName = wx ''slide'' then
              (case text of
                 None \<Rightarrow> null_deref
               | Some t \<Rightarrow> (\<lambda>st.
                   let str = GetContent t;
                       fr = (case map_of (GetAttributes node) (wx ''fr'') of
                               None \<Rightarrow> None
                             | Some framerate \<Rightarrow> ToLong env framerate);
                       images = filter (\<lambda>token. token \<noteq> []) (tokens str [])
                   in return_run [Cell new_base (SlideShow (m_fileSystem st) fr images)] st))
            else if tagName = wx ''editor'' then return_run (ParseEditorTag node)
            else if tagName = wx ''cell'' then ParseCellTag node children
            else if tagName = wx ''ascii'' then total_run (ParseCharCode env text default_style)
            else if children \<noteq> [] then ParseTag children default_all
            else return_run [])
      else total_run (ParseText env (Some node) default_style))"

text \<open>A document node linked to the dispatch of its tag, and its children likewise.\<close>

fun link :: "env \<Rightarrow> wxXmlNode \<Rightarrow> lnode" where
  "link env (XmlNode ty name content attrs children) =
     (let node = XmlNode ty name content attrs children;
          linked = map (\<lambda>c. link env c) children
      in Linked node linked (dispatch env node linked))"

section \<open>Parsing a line\<close>

text \<open>
  \<open>MathParser::ParseLine\<close>. The second operand of the test, \<open>(showLength=0)\<close>, is an
  assignment: it stores 0 and its value, 0, is false.
\<close>

definition ParseLine :: "env \<Rightarrow> wxString \<Rightarrow> CellType \<Rightarrow> chain run" where
  "ParseLine env s style st =
     (let st = st\<lparr>m_ParserStyle := style, m_FracStyle := FC_NORMAL, m_highlight_ctx := False\<rparr>;
          showLength = (case cfg_showLength env of None \<Rightarrow> 0 | Some v \<Rightarrow> v);
          showLength = (if showLength = 0 then 50000
                        else if showLength = 1 then 500000
                        else if showLength = 2 then 5000000
                        else if showLength = 3 then 0
                        else showLength);
          s = map (\<lambda>c. if is_cntrl env c then 65533 else c) s
      in if int (length s) < as_size_t showLength
            \<or> (let showLength = (0::int) in showLength \<noteq> 0) then
           (let st = st\<lparr>xmlLoads := Suc (xmlLoads st)\<rparr>
            in case Load env s of
                 None \<Rightarrow> return_run [] st
               | Some doc \<Rightarrow> ParseTag (map (link env) (GetChildren doc)) default_all st)
         else
           return_run
             [ForceBreakLine True (new_TextCell (wx '' << Expression too long to display! >>''))]
             st)"

section \<open>The constructor, and documents to run the parser on\<close>

text \<open>
  \<open>MathParser::MathParser(zipfile)\<close>. The constructor leaves \<open>m_displayedDigits\<close>
  unset; \<open>ParseText\<close> writes it before it reads it. No message box has been shown.
\<close>

definition new_MathParser :: "wxString \<Rightarrow> state" where
  "new_MathParser zipfile =
     \<lparr>m_ParserStyle = MC_TYPE_DEFAULT, m_FracStyle = FC_NORMAL, m_highlight_ctx = False,
      m_displayedDigits = 0, m_fileSystem = (zipfile \<noteq> []), messageBoxes = 0, xmlLoads = 0\<rparr>"

text \<open>
  A configuration store without keys, beside collaborators that never convert a
  number, class the characters below 32 as control characters and load no document.
\<close>

definition no_config :: env where
  "no_config =
     \<lparr>cfg_displayedDigits = None, cfg_showLength = None, ToLong = (\<lambda>_. None),
      Format_c = (\<lambda>_. []), is_cntrl = (\<lambda>c. c < 32), Load = (\<lambda>_. None)\<rparr>"

text \<open>An element \<open><name attrs>children</name>\<close> and a text node, as the XML reader builds them.\<close>

definition element :: "string \<Rightarrow> (string \<times> string) list \<Rightarrow> wxXmlNode list \<Rightarrow> wxXmlNode" where
  "element name attrs children =
     XmlNode XML_ELEMENT_NODE (wx name) [] (map (\<lambda>(a, v). (wx a, wx v)) attrs) children"

definition text_node :: "string \<Rightarrow> wxXmlNode" where
  "text_node s = XmlNode XML_TEXT_NODE (wx ''text'') (wx s) [] []"

text \<open>The number leaf \<open><n>s</n>\<close>.\<close>

definition number :: "string \<Rightarrow> wxXmlNode" where
  "number s = element ''n'' [] [text_node s]"

text \<open>The block \<open><cell type="subsection"><fold>cells</fold></cell>\<close>.\<close>

definition folded_subsection :: "wxXmlNode list \<Rightarrow> wxXmlNode" where
  "folded_subsection cells =
     element ''cell'' [(''type'', ''subsection'')] [element ''fold'' [] cells]"

section \<open>Counting the warnings of a call\<close>

text \<open>
  A call adds at most \<open>b\<close> message boxes: whenever it returns, the number of message
  boxes shown has grown by at most \<open>b\<close>.
\<close>

definition adds_at_most :: "'a run \<Rightarrow> nat \<Rightarrow> bool" where
  "adds_at_most f b \<longleftrightarrow>
     (\<forall>st r st'. f st = Some (r, st') \<longrightarrow> messageBoxes st' \<le> messageBoxes st + b)"

section \<open>Truncation of long numbers\<close>

lemma ParseText_number_value:
  "map GetValue (fst (ParseText env (Some node) TS_NUMBER st)) =
     (let C = max 10 (case cfg_displayedDigits env of None \<Rightarrow> 100 | Some v \<Rightarrow> v);
          str = Replace (GetContent node) 45 8722;
          L = int (length (GetContent node));
          left = min (C div 3) 30
      in [if L > C
          then wxLeft str (nat left) @ Format_digits (L - 2 * left) @ wxRight str (nat left)
          else str])"
  by (cases "GetContent node = []")
    (auto simp add: ParseText_def Let_def GetValue_def SetValue_def SetType_def SetStyle_def
      SetHighlight_def new_TextCell_def as_size_t_def Replace_def max_def min_def
      split: option.split)

lemma Replace_absent: "a \<notin> set str \<Longrightarrow> Replace str a b = str"
  by (induction str) (auto simp add: Replace_def)

text \<open>
  C1, as the code has it. The string the cell shows for a number leaf is computed from
  the content in which every hyphen-minus (45) has been replaced by the minus sign
  U+2212 (8722), a replacement that keeps the length \<open>L\<close>. With the cutoff \<open>C\<close> read from
  the configuration (100 when the key is absent, then at least 10) and
  \<open>left = min (C div 3) 30\<close>: if \<open>L > C\<close> the string is the first \<open>left\<close> characters,
  the marker \<open>[N digits]\<close> with \<open>N = L - 2 * left\<close>, and the last \<open>left\<close> characters;
  if \<open>L \<le> C\<close> it is left as it is. For a content without hyphen-minus, a digit string
  for one, the replacement changes nothing. A leaf without content shows the empty
  string. With \<open>C = 10\<close> the content \<open>12345678901234\<close> is shown as
  \<open>123[8 digits]234\<close>.
\<close>

theorem ParseText_number_display:
  "map GetValue (fst (ParseText env (Some node) TS_NUMBER st)) =
     (let C = max 10 (case cfg_displayedDigits env of None \<Rightarrow> 100 | Some v \<Rightarrow> v);
          str = Replace (GetContent node) 45 8722;
          L = int (length (GetContent node));
          left = min (C div 3) 30
      in [if L > C
          then wxLeft str (nat left) @ Format_digits (L - 2 * left) @ wxRight str (nat left)
          else str])
   \<and> length (Replace (GetContent node) 45 8722) = length (GetContent node)
   \<and> (45 \<notin> set (GetContent node) \<longrightarrow> Replace (GetContent node) 45 8722 = GetContent node)
   \<and> map GetValue (fst (ParseText env None TS_NUMBER st)) = [[]]
   \<and> map GetValue
        (fst (ParseText (env\<lparr>cfg_displayedDigits := Some 10\<rparr>)
           (Some (XmlNode ty nm (wx ''12345678901234'') attrs cs)) TS_NUMBER st)) =
      [wx ''123'' @ wx ''[8 digits]'' @ wx ''234'']"
proof (intro conjI)
  show "map GetValue
        (fst (ParseText (env\<lparr>cfg_displayedDigits := Some 10\<rparr>)
           (Some (XmlNode ty nm (wx ''12345678901234'') attrs cs)) TS_NUMBER st)) =
      [wx ''123'' @ wx ''[8 digits]'' @ wx ''234'']"
    by (simp add: ParseText_number_value Let_def Replace_def wxLeft_def wxRight_def
        Format_digits_def Format_i_def dec_nat.simps wx_def)
next
  show "45 \<notin> set (GetContent node) \<longrightarrow> Replace (GetContent node) 45 8722 = GetContent node"
    by (simp add: Replace_absent)
next
  show "map GetValue (fst (ParseText env None TS_NUMBER st)) = [[]]"
    by (simp add: ParseText_def GetValue_def new_TextCell_def)
qed (simp_all add: ParseText_number_value Replace_def)

theorem ParseText_number_display_witness:
  "45 \<notin> set (wx ''12345678901234'')
   \<and> map GetValue
        (fst (ParseText (no_config\<lparr>cfg_displayedDigits := Some 10\<rparr>)
           (Some (text_node ''12345678901234'')) TS_NUMBER (new_MathParser []))) =
      [wx ''123[8 digits]234'']"
  using ParseText_number_display [where node = "text_node ''12345678901234''"
      and env = "no_config\<lparr>cfg_displayedDigits := Some 10\<rparr>" and st = "new_MathParser []"]
  by (simp add: Let_def text_node_def no_config_def wxLeft_def wxRight_def
      Format_digits_def Format_i_def dec_nat.simps wx_def)

text \<open>
  The claim as stated fails on a number with a hyphen: the content \<open>1.0e-5\<close>, of length
  6 and below every cutoff, is not shown unchanged.
\<close>

theorem ParseText_number_changes_short_content:
  "map GetValue
     (fst (ParseText no_config (Some (text_node ''1.0e-5'')) TS_NUMBER (new_MathParser [])))
     = [wx ''1.0e'' @ [8722] @ wx ''5'']
   \<and> wx ''1.0e'' @ [8722] @ wx ''5'' \<noteq> wx ''1.0e-5''"
  by (simp add: ParseText_number_value Let_def Replace_def wxLeft_def wxRight_def
      no_config_def text_node_def wx_def)

text \<open>
  C2, as the code has it. The truncated string is the only value the cell is given
  (\<open>SetValue(str)\<close> after \<open>str\<close> has been overwritten). When \<open>L \<le> C\<close> the value of
  the cell is the content (hyphens as minus signs). When \<open>L > C\<close> the value of the cell
  is the truncated form: the first \<open>left\<close> characters, the marker and the last \<open>left\<close>
  characters. Nothing else of the content reaches the cell: two contents of the same
  length \<open>L > C\<close> that agree on their first \<open>left\<close> and last \<open>left\<close> characters give
  the same cell, so what lies between cannot be read back from it.
\<close>

theorem ParseText_number_keeps_only_ends:
  "(let C = max 10 (case cfg_displayedDigits env of None \<Rightarrow> 100 | Some v \<Rightarrow> v);
        left = min (C div 3) 30
    in (int (length a) \<le> C \<longrightarrow>
          map GetValue (fst (ParseText env (Some (XmlNode ty nm a attrs cs)) TS_NUMBER st)) =
            [Replace a 45 8722])
       \<and> (int (length a) > C \<longrightarrow>
          map GetValue (fst (ParseText env (Some (XmlNode ty nm a attrs cs)) TS_NUMBER st)) =
            [wxLeft (Replace a 45 8722) (nat left)
               @ Format_digits (int (length a) - 2 * left)
               @ wxRight (Replace a 45 8722) (nat left)])
       \<and> (int (length a) > C \<and> length b = length a
            \<and> take (nat left) a = take (nat left) b
            \<and> drop (length a - nat left) a = drop (length a - nat left) b
          \<longrightarrow> ParseText env (Some (XmlNode ty nm a attrs cs)) TS_NUMBER st =
              ParseText env (Some (XmlNode ty' nm' b attrs' cs')) TS_NUMBER st))"
proof -
  define C where "C = max 10 (case cfg_displayedDigits env of None \<Rightarrow> 100 | Some v \<Rightarrow> v)"
  define k where "k = min (C div 3) 30"
  define n where "n = nat k"
  have C: "10 \<le> C" by (simp add: C_def)
  have short: "map GetValue (fst (ParseText env (Some (XmlNode ty nm a attrs cs)) TS_NUMBER st)) =
             [Replace a 45 8722]" if "int (length a) \<le> C"
    using that
    by (auto simp add: ParseText_number_value Let_def C_def max_def split: option.splits)
  have truncated:
    "map GetValue (fst (ParseText env (Some (XmlNode ty nm a attrs cs)) TS_NUMBER st)) =
       [wxLeft (Replace a 45 8722) n @ Format_digits (int (length a) - 2 * k)
          @ wxRight (Replace a 45 8722) n]" if "int (length a) > C"
  proof -
    have "map GetValue (fst (ParseText env (Some (XmlNode ty nm a attrs cs)) TS_NUMBER st)) =
       [if int (length a) > C
        then wxLeft (Replace a 45 8722) (nat (min (C div 3) 30))
               @ Format_digits (int (length a) - 2 * min (C div 3) 30)
               @ wxRight (Replace a 45 8722) (nat (min (C div 3) 30))
        else Replace a 45 8722]"
      unfolding C_def using ParseText_number_value [of env "XmlNode ty nm a attrs cs" st]
      by (simp only: Let_def wxXmlNode.sel)
    with that show ?thesis
      by (simp only: n_def k_def if_True)
  qed
  have long: "ParseText env (Some (XmlNode ty nm a attrs cs)) TS_NUMBER st =
              ParseText env (Some (XmlNode ty' nm' b attrs' cs')) TS_NUMBER st"
    if h: "int (length a) > C" "length b = length a" "take n a = take n b"
      "drop (length a - n) a = drop (length a - n) b"
  proof -
    from h C have ne: "a \<noteq> []" "b \<noteq> []" by auto
    have l: "wxLeft (Replace a 45 8722) n = wxLeft (Replace b 45 8722) n"
      using h by (simp add: wxLeft_def Replace_def take_map)
    have r: "wxRight (Replace a 45 8722) n = wxRight (Replace b 45 8722) n"
      using h by (simp add: wxRight_def Replace_def drop_map)
    have len: "length (Replace a 45 8722) = length a" "length (Replace b 45 8722) = length a"
      using h by (simp_all add: Replace_def)
    have ra: "Replace a 45 8722 \<noteq> []" "Replace b 45 8722 \<noteq> []"
      using ne by (simp_all add: Replace_def)
    have dd: "(if (case cfg_displayedDigits env of None \<Rightarrow> 100 | Some v \<Rightarrow> v) < 10 then 10
               else (case cfg_displayedDigits env of None \<Rightarrow> 100 | Some v \<Rightarrow> v)) = C"
      by (simp add: C_def max_def)
    have n': "nat (if C div 3 > 30 then 30 else C div 3) = n"
      by (simp add: n_def k_def min_def)
    show ?thesis
      using h C ne ra l r
      by (simp add: ParseText_def Let_def len as_size_t_def dd n')
  qed
  show ?thesis
    unfolding Let_def C_def [symmetric] k_def [symmetric] n_def [symmetric]
    using short truncated long by blast
qed

theorem ParseText_number_keeps_only_ends_witness:
  "map GetValue
     (fst (ParseText (no_config\<lparr>cfg_displayedDigits := Some 10\<rparr>) (Some (text_node ''42''))
        TS_NUMBER (new_MathParser []))) = [wx ''42'']
   \<and> map GetValue
     (fst (ParseText (no_config\<lparr>cfg_displayedDigits := Some 10\<rparr>)
        (Some (text_node ''98765432109876'')) TS_NUMBER (new_MathParser [])))
     = [wx ''987[8 digits]876'']
   \<and> ParseText (no_config\<lparr>cfg_displayedDigits := Some 10\<rparr>)
        (Some (text_node ''12345678901234'')) TS_NUMBER (new_MathParser []) =
     ParseText (no_config\<lparr>cfg_displayedDigits := Some 10\<rparr>)
        (Some (text_node ''12300000000234'')) TS_NUMBER (new_MathParser [])"
proof -
  note short = ParseText_number_keeps_only_ends [where a = "wx ''42''"
      and env = "no_config\<lparr>cfg_displayedDigits := Some 10\<rparr>" and ty = XML_TEXT_NODE
      and nm = "wx ''text''" and attrs = "[]" and cs = "[]" and st = "new_MathParser []",
      unfolded Let_def, THEN conjunct1]
  note cut = ParseText_number_keeps_only_ends [where a = "wx ''98765432109876''"
      and env = "no_config\<lparr>cfg_displayedDigits := Some 10\<rparr>" and ty = XML_TEXT_NODE
      and nm = "wx ''text''" and attrs = "[]" and cs = "[]" and st = "new_MathParser []",
      unfolded Let_def, THEN conjunct2, THEN conjunct1]
  note same = ParseText_number_keeps_only_ends [where a = "wx ''12345678901234''"
      and b = "wx ''12300000000234''"
      and env = "no_config\<lparr>cfg_displayedDigits := Some 10\<rparr>" and ty = XML_TEXT_NODE
      and nm = "wx ''text''" and attrs = "[]" and cs = "[]" and st = "new_MathParser []"
      and ty' = XML_TEXT_NODE and nm' = "wx ''text''" and attrs' = "[]" and cs' = "[]",
      unfolded Let_def, THEN conjunct2, THEN conjunct2]
  have e1: "map GetValue
     (fst (ParseText (no_config\<lparr>cfg_displayedDigits := Some 10\<rparr>) (Some (text_node ''42''))
        TS_NUMBER (new_MathParser []))) = [wx ''42'']"
    using short by (simp add: text_node_def no_config_def wx_def Replace_def)
  have e2: "map GetValue
     (fst (ParseText (no_config\<lparr>cfg_displayedDigits := Some 10\<rparr>)
        (Some (text_node ''98765432109876'')) TS_NUMBER (new_MathParser [])))
     = [wx ''987[8 digits]876'']"
    using cut
    by (simp add: text_node_def no_config_def wx_def Replace_def wxLeft_def wxRight_def
        Format_digits_def Format_i_def dec_nat.simps)
  have e3: "ParseText (no_config\<lparr>cfg_displayedDigits := Some 10\<rparr>)
        (Some (text_node ''12345678901234'')) TS_NUMBER (new_MathParser []) =
     ParseText (no_config\<lparr>cfg_displayedDigits := Some 10\<rparr>)
        (Some (text_node ''12300000000234'')) TS_NUMBER (new_MathParser [])"
    using same by (simp add: text_node_def no_config_def wx_def)
  from e1 e2 e3 show ?thesis by simp
qed

text \<open>
  The claim as stated fails: with the cutoff 10, the cell built from \<open>12345678901234\<close>
  holds \<open>123[8 digits]234\<close>, not the serialized content.
\<close>

theorem ParseText_number_value_is_truncated:
  "map GetValue
     (fst (ParseText (no_config\<lparr>cfg_displayedDigits := Some 10\<rparr>)
        (Some (text_node ''12345678901234'')) TS_NUMBER (new_MathParser [])))
     = [wx ''123[8 digits]234'']
   \<and> wx ''123[8 digits]234'' \<noteq> wx ''12345678901234''"
  by (simp add: ParseText_number_value Let_def Replace_def wxLeft_def wxRight_def
      Format_digits_def Format_i_def dec_nat.simps no_config_def text_node_def wx_def)

section \<open>The length cutoff of a line\<close>

text \<open>
  C3, on the code. With the selector 3 the cutoff becomes 0; no length is below 0 and
  the assignment \<open>(showLength=0)\<close> is false, so \<open>ParseLine\<close> returns the placeholder for
  every input and never hands the input to the XML reader.
\<close>

theorem ParseLine_selector_3:
  "ParseLine (env\<lparr>cfg_showLength := Some 3\<rparr>) s style st =
     Some ([ForceBreakLine True (new_TextCell (wx '' << Expression too long to display! >>''))],
           st\<lparr>m_ParserStyle := style, m_FracStyle := FC_NORMAL, m_highlight_ctx := False\<rparr>)"
  by (simp add: ParseLine_def Let_def as_size_t_def return_run_def)

text \<open>
  C4. With the selector 0 the cutoff is 50000: for an input of 50001 characters
  \<open>ParseLine\<close> returns exactly one cell, a new text cell that holds the fixed message
  and whose flags \<open>m_forceBreakLine\<close> and \<open>m_breakLine\<close> are set. The state it returns
  differs from the one it was given in the three members \<open>ParseLine\<close> resets only: the
  count of documents handed to the XML reader is the same, whatever the reader would
  have made of the input.
\<close>

theorem ParseLine_selector_0_oversized:
  assumes "length s = 50001"
  shows "ParseLine (env\<lparr>cfg_showLength := Some 0\<rparr>) s style st =
     Some ([Cell \<lparr>m_type = MC_TYPE_DEFAULT, m_textStyle = TS_DEFAULT, m_highlight = False,
                   m_isHidden = False, m_forceBreakLine = True, m_breakLine = True,
                   m_exponentFlag = False, m_altCopyText = []\<rparr>
              (TextCell (wx '' << Expression too long to display! >>''))],
           st\<lparr>m_ParserStyle := style, m_FracStyle := FC_NORMAL, m_highlight_ctx := False\<rparr>)
   \<and> map (\<lambda>c. (m_forceBreakLine (base c), GetValue c))
       (case ParseLine (env\<lparr>cfg_showLength := Some 0\<rparr>) s style st of
          None \<Rightarrow> [] | Some (cells, _) \<Rightarrow> cells)
     = [(True, wx '' << Expression too long to display! >>'')]
   \<and> map_option (\<lambda>r. xmlLoads (snd r)) (ParseLine (env\<lparr>cfg_showLength := Some 0\<rparr>) s style st)
     = Some (xmlLoads st)"
  using assms
  by (simp add: ParseLine_def Let_def as_size_t_def return_run_def ForceBreakLine_def
      new_TextCell_def new_base_def GetValue_def)

theorem ParseLine_selector_0_oversized_witness:
  "length (replicate 50001 (49::nat)) = 50001
   \<and> ParseLine (no_config\<lparr>cfg_showLength := Some 0\<rparr>) (replicate 50001 49) MC_TYPE_DEFAULT
       (new_MathParser []) =
     Some ([Cell \<lparr>m_type = MC_TYPE_DEFAULT, m_textStyle = TS_DEFAULT, m_highlight = False,
                   m_isHidden = False, m_forceBreakLine = True, m_breakLine = True,
                   m_exponentFlag = False, m_altCopyText = []\<rparr>
              (TextCell (wx '' << Expression too long to display! >>''))],
           new_MathParser [])"
  using ParseLine_selector_0_oversized
    [of "replicate 50001 49" no_config MC_TYPE_DEFAULT "new_MathParser []"]
  by (simp add: new_MathParser_def)

section \<open>Composite tags with a missing child\<close>

lemma handler_link: "handler (link env x) = dispatch env x (map (link env) (GetChildren x))"
  by (cases x) (simp add: Let_def)

text \<open>
  Each of the ten handlers returns \<open>NULL\<close> when it has fewer children than it requires:
  whenever such a call returns, its result is the null chain.
\<close>

lemma composite_missing_child:
  "(length children < 2 \<longrightarrow> (\<forall>r st'. ParseFracTag node children st = Some (r, st') \<longrightarrow> r = []))
 \<and> (length children < 2 \<longrightarrow> (\<forall>r st'. ParseSupTag node children st = Some (r, st') \<longrightarrow> r = []))
 \<and> (length children < 2 \<longrightarrow> (\<forall>r st'. ParseSubTag node children st = Some (r, st') \<longrightarrow> r = []))
 \<and> (length children < 3 \<longrightarrow> (\<forall>r st'. ParseSubSupTag node children st = Some (r, st') \<longrightarrow> r = []))
 \<and> (length children < 2 \<longrightarrow> (\<forall>r st'. ParseFunTag node children st = Some (r, st') \<longrightarrow> r = []))
 \<and> (length children < 3 \<longrightarrow> (\<forall>r st'. ParseLimitTag node children st = Some (r, st') \<longrightarrow> r = []))
 \<and> (length children < 3 \<longrightarrow> (\<forall>r st'. ParseSumTag node children st = Some (r, st') \<longrightarrow> r = []))
 \<and> (length children < (if GetAttributes node = [] then 4 else 2) \<longrightarrow>
       (\<forall>r st'. ParseIntTag node children st = Some (r, st') \<longrightarrow> r = []))
 \<and> (length children < 2 \<longrightarrow> (\<forall>r st'. ParseAtTag node children st = Some (r, st') \<longrightarrow> r = []))
 \<and> (length children < 2 \<longrightarrow> (\<forall>r st'. ParseDiffTag node children st = Some (r, st') \<longrightarrow> r = []))"
proof -
  have l2: "length children < 2 \<Longrightarrow> children = [] \<or> (\<exists>x. children = [x])"
    by (cases children; cases "tl children") auto
  have l3: "length children < 3 \<Longrightarrow> children = [] \<or> (\<exists>x. children = [x]) \<or> (\<exists>x y. children = [x, y])"
    by (cases children; cases "tl children"; cases "tl (tl children)") auto
  have l4: "length children < 4 \<Longrightarrow> children = [] \<or> (\<exists>x. children = [x]) \<or> (\<exists>x y. children = [x, y]) \<or> (\<exists>x y z. children = [x, y, z])"
    by (cases children; cases "tl children"; cases "tl (tl children)"; cases "tl (tl (tl children))") auto
  have frac: "length children < 2 \<longrightarrow> (\<forall>r st'. ParseFracTag node children st = Some (r, st') \<longrightarrow> r = [])"
    using l2 by (auto simp add: ParseFracTag_def Let_def bind_run_def return_run_def split: option.splits)
  have sup: "length children < 2 \<longrightarrow> (\<forall>r st'. ParseSupTag node children st = Some (r, st') \<longrightarrow> r = [])"
    using l2 by (auto simp add: ParseSupTag_def Let_def bind_run_def return_run_def split: option.splits)
  have sub: "length children < 2 \<longrightarrow> (\<forall>r st'. ParseSubTag node children st = Some (r, st') \<longrightarrow> r = [])"
    using l2 by (auto simp add: ParseSubTag_def Let_def bind_run_def return_run_def split: option.splits)
  have subsup: "length children < 3 \<longrightarrow> (\<forall>r st'. ParseSubSupTag node children st = Some (r, st') \<longrightarrow> r = [])"
    using l3 by (auto simp add: ParseSubSupTag_def Let_def bind_run_def return_run_def through_def null_deref_def split: option.splits list.splits)
  have fn: "length children < 2 \<longrightarrow> (\<forall>r st'. ParseFunTag node children st = Some (r, st') \<longrightarrow> r = [])"
    using l2 by (auto simp add: ParseFunTag_def Let_def bind_run_def return_run_def split: option.splits)
  have lim: "length children < 3 \<longrightarrow> (\<forall>r st'. ParseLimitTag node children st = Some (r, st') \<longrightarrow> r = [])"
    using l3 by (auto simp add: ParseLimitTag_def Let_def bind_run_def return_run_def split: option.splits)
  have sm: "length children < 3 \<longrightarrow> (\<forall>r st'. ParseSumTag node children st = Some (r, st') \<longrightarrow> r = [])"
    using l3 by (auto simp add: ParseSumTag_def Let_def bind_run_def return_run_def split: option.splits if_splits)
  have int: "length children < (if GetAttributes node = [] then 4 else 2) \<longrightarrow> (\<forall>r st'. ParseIntTag node children st = Some (r, st') \<longrightarrow> r = [])"
    using l2 l4 by (auto simp add: ParseIntTag_def Let_def bind_run_def return_run_def split: option.splits if_splits)
  have at: "length children < 2 \<longrightarrow> (\<forall>r st'. ParseAtTag node children st = Some (r, st') \<longrightarrow> r = [])"
    using l2 by (auto simp add: ParseAtTag_def Let_def bind_run_def return_run_def split: option.splits)
  have diff: "length children < 2 \<longrightarrow> (\<forall>r st'. ParseDiffTag node children st = Some (r, st') \<longrightarrow> r = [])"
    using l2 by (auto simp add: ParseDiffTag_def Let_def bind_run_def return_run_def split: option.splits)
  show ?thesis
    using frac sup sub subsup fn lim sm int at diff by blast
qed


lemma composite_missing_child_witness:
  "length ([] :: lnode list) < 2
   \<and> ParseFracTag (element ''f'' [] []) [] (new_MathParser []) = Some ([], new_MathParser [])"
  using composite_missing_child [of "[]" "element ''f'' [] []" "new_MathParser []"]
  by (simp add: ParseFracTag_def return_run_def)

text \<open>
  C5, on the code. The siblings \<open><n>1</n><f></f><n>2</n>\<close>, parsed with \<open>all = true\<close>:
  the fraction has no children and its handler returns \<open>NULL\<close>. The loop then sets
  \<open>cell = cell->m_next\<close>, which is null because nothing was appended, so the cell of
  the next sibling starts a chain of its own that \<open>tmp\<close> never reaches. The call
  returns the chain of the first number alone and shows no warning. When the
  malformed node comes first, the chain of what follows is returned, unless the
  malformed node has an \<open>altCopy\<close> attribute: then \<open>cell->SetAltCopyText\<close> writes
  through the null \<open>cell\<close> and the parse ends there.
\<close>

theorem ParseTag_loses_siblings_after_null:
  "map_option (\<lambda>r. (map GetValue (fst r), messageBoxes (snd r)))
     (ParseTag (map (link no_config) [number ''1'', element ''f'' [] [], number ''2'']) True
        (new_MathParser [])) = Some ([wx ''1''], 0)
   \<and> map_option (\<lambda>r. (map GetValue (fst r), messageBoxes (snd r)))
     (ParseTag (map (link no_config) [element ''f'' [] [], number ''2'']) True
        (new_MathParser [])) = Some ([wx ''2''], 1)
   \<and> map_option (\<lambda>r. (map GetValue (fst r), messageBoxes (snd r)))
     (ParseTag (map (link no_config) [number ''1'', number ''2'']) True
        (new_MathParser [])) = Some ([wx ''1'', wx ''2''], 0)
   \<and> ParseTag (map (link no_config) [element ''f'' [(''altCopy'', ''x'')] [], number ''2''])
       True (new_MathParser []) = None"
  by code_simp

section \<open>The one-shot warning\<close>

lemma tag_loop_warnings:
  assumes "list_all2 (\<lambda>n b. adds_at_most (handler n) b) nodes bs"
    and "tag_loop all nodes tmp cell warning st = Some (r, st')"
  shows "messageBoxes st' \<le> messageBoxes st + sum_list bs + (if warning then 1 else 0)"
  using assms
proof (induction nodes arbitrary: bs tmp cell warning st)
  case Nil
  then show ?case by simp
next
  case (Cons node rest)
  from Cons.prems(1) obtain b bs' where bs: "bs = b # bs'"
    and b: "adds_at_most (handler node) b"
    and rest: "list_all2 (\<lambda>n b. adds_at_most (handler n) b) rest bs'"
    by (auto simp add: list_all2_Cons1)
  from Cons.prems(2) obtain r1 st1 where h: "handler node st = Some (r1, st1)"
    by (auto split: option.splits)
  from b h have st1: "messageBoxes st1 \<le> messageBoxes st + b"
    by (auto simp add: adds_at_most_def)
  obtain tmp1 cell1 where a: "assign_or_append tmp cell r1 = (tmp1, cell1)"
    by (cases "assign_or_append tmp cell r1")
  show ?case
  proof (cases all)
    case False
    with Cons.prems(2) h a have "st' = st1" by simp
    with st1 bs show ?thesis by simp
  next
    case True
    define step where "step =
      (if cell1 \<noteq> CNull then
         (if tmp1 = [] then (deref tmp1 cell1, InHead 0, warning, st1)
          else (tmp1, m_next tmp1 cell1, warning, st1))
       else if warning then
         (tmp1, cell1, False, st1\<lparr>messageBoxes := Suc (messageBoxes st1)\<rparr>)
       else (tmp1, cell1, warning, st1))"
    obtain tmp2 cell2 warning2 st2 where s: "step = (tmp2, cell2, warning2, st2)"
      by (cases step)
    have w: "messageBoxes st2 + (if warning2 then 1 else 0)
               \<le> messageBoxes st1 + (if warning then 1 else 0)"
      using s by (auto simp add: step_def split: if_splits)
    from Cons.prems(2) h a True s obtain tmp3 cell3 where
      "tag_loop all rest tmp3 cell3 warning2 st2 = Some (r, st')"
      by (auto simp add: step_def [symmetric] split: option.splits)
    from Cons.IH [OF rest this]
    have "messageBoxes st' \<le> messageBoxes st2 + sum_list bs' + (if warning2 then 1 else 0)" .
    with w st1 bs show ?thesis by simp
  qed
qed

lemma unknown_leaf_zz: "dispatch no_config (element ''zz'' [] []) [] st = Some ([], st)"
  by code_simp

lemma unknown_leaf_yy: "dispatch no_config (element ''yy'' [] []) [] st = Some ([], st)"
  by code_simp

text \<open>
  C6, as the code has it. The flag \<open>warning\<close> is a local variable of each call of
  \<open>ParseTag\<close>, set to \<open>all\<close> on entry. A call therefore shows at most one message box
  of its own, and none when \<open>all\<close> is false, on top of those shown while the handlers
  of its nodes run, where nested calls have flags of their own: if the handler of the
  \<open>i\<close>-th node adds at most \<open>bs ! i\<close> message boxes, the call adds at most their sum
  plus one.
\<close>

theorem ParseTag_warns_once_per_call:
  assumes "list_all2 (\<lambda>n b. adds_at_most (handler n) b) nodes bs"
  shows "adds_at_most (ParseTag nodes all) (sum_list bs + (if all then 1 else 0))"
  unfolding adds_at_most_def ParseTag_def
  using tag_loop_warnings [OF assms] by fastforce

theorem ParseTag_warns_once_per_call_witness:
  "list_all2 (\<lambda>n b. adds_at_most (handler n) b)
     (map (link no_config) [element ''zz'' [] [], element ''yy'' [] []]) [0, 0]
   \<and> adds_at_most
       (ParseTag (map (link no_config) [element ''zz'' [] [], element ''yy'' [] []]) True) 1
   \<and> ParseTag (map (link no_config) [element ''zz'' [] [], element ''yy'' [] []]) True
       (new_MathParser [])
     = Some ([], (new_MathParser [])\<lparr>messageBoxes := 1\<rparr>)"
proof -
  have h: "list_all2 (\<lambda>n b. adds_at_most (handler n) b)
     (map (link no_config) [element ''zz'' [] [], element ''yy'' [] []]) [0, 0]"
    using unknown_leaf_zz unknown_leaf_yy
    by (simp add: adds_at_most_def handler_link element_def del: link.simps)
  have e: "ParseTag (map (link no_config) [element ''zz'' [] [], element ''yy'' [] []]) True
       (new_MathParser [])
     = Some ([], (new_MathParser [])\<lparr>messageBoxes := 1\<rparr>)"
    by code_simp
  show ?thesis
    using h e ParseTag_warns_once_per_call [OF h, of True] by simp
qed

text \<open>
  The claim as stated fails: one top-level call on \<open><r><zz/></r>\<close> shows two message
  boxes, one in the nested call on the children of \<open>r\<close> and one in the top-level call.
  So does \<open>ParseLine\<close> on a line that the XML reader loads as \<open><mth><r><zz/></r></mth>\<close>.
\<close>

theorem ParseTag_nested_call_warns_again:
  "map_option (\<lambda>r. messageBoxes (snd r))
     (ParseTag (map (link no_config) [element ''r'' [] [element ''zz'' [] []]]) True
        (new_MathParser [])) = Some 2
   \<and> map_option (\<lambda>r. messageBoxes (snd r))
     (ParseLine
        (no_config\<lparr>Load := \<lambda>_. Some (element ''mth'' [] [element ''r'' [] [element ''zz'' [] []]])\<rparr>)
        (wx ''<mth><r><zz/></r></mth>'') MC_TYPE_DEFAULT (new_MathParser [])) = Some 2"
  by code_simp

section \<open>The alternate copy text\<close>

text \<open>
  C7, on the code. The loop leaves at \<open>if (!all) break;\<close> before it reads the
  \<open>altCopy\<close> attribute: with \<open>all = false\<close> the cell of \<open><v altCopy="x">a</v>\<close> has no
  alternate copy text, with \<open>all = true\<close> it has the text \<open>x\<close>. The handlers of the
  composite tags parse their children with \<open>all = false\<close>: the base of
  \<open><e><v altCopy="x">a</v><n>2</n></e>\<close> has no alternate copy text either.
\<close>

theorem ParseTag_one_construct_drops_altCopy:
  "map_option (\<lambda>r. map (\<lambda>c. (GetValue c, m_altCopyText (base c))) (fst r))
     (ParseTag (map (link no_config) [element ''v'' [(''altCopy'', ''x'')] [text_node ''a'']])
        False (new_MathParser [])) = Some [(wx ''a'', [])]
   \<and> map_option (\<lambda>r. map (\<lambda>c. (GetValue c, m_altCopyText (base c))) (fst r))
     (ParseTag (map (link no_config) [element ''v'' [(''altCopy'', ''x'')] [text_node ''a'']])
        True (new_MathParser [])) = Some [(wx ''a'', wx ''x'')]
   \<and> map_option
       (\<lambda>r. map (\<lambda>c. case body c of
                         ExptCell _ b _ \<Rightarrow> map (\<lambda>c. (GetValue c, m_altCopyText (base c))) b
                       | _ \<Rightarrow> [])
               (fst r))
     (ParseTag
        (map (link no_config)
           [element ''e'' [] [element ''v'' [(''altCopy'', ''x'')] [text_node ''a''], number ''2'']])
        True (new_MathParser [])) = Some [[(wx ''a'', [])]]"
  by code_simp

section \<open>Parsing one construct\<close>

lemma ParseTag_one_node: "ParseTag (node # rest) False st = handler node st"
  by (simp add: ParseTag_def assign_or_append_def loop_result_def deref_def
      split: option.split prod.split)

text \<open>
  C8, as the code has it. With \<open>all = false\<close> the loop ends after its first pass,
  whatever the first node gave: the call returns what the dispatch of the first node
  of the sequence yields, a chain or \<open>NULL\<close>, and never looks at a later sibling. On
  no node at all it returns \<open>NULL\<close>.
\<close>

theorem ParseTag_one_construct:
  "ParseTag (map (link env) (x # xs)) False st
     = dispatch env x (map (link env) (GetChildren x)) st
   \<and> ParseTag [] False st = Some ([], st)"
proof
  show "ParseTag (map (link env) (x # xs)) False st
          = dispatch env x (map (link env) (GetChildren x)) st"
    using ParseTag_one_node [of "link env x" "map (link env) xs" st] handler_link [of env x]
    by (simp del: link.simps)
  show "ParseTag [] False st = Some ([], st)"
    by (simp add: ParseTag_def loop_result_def deref_def)
qed

text \<open>
  The claim as stated fails: in \<open><zz/><n>1</n>\<close> the second node produces a cell, yet
  the call with \<open>all = false\<close> ends at the unknown tag \<open>zz\<close> and returns \<open>NULL\<close>.
\<close>

theorem ParseTag_one_construct_stops_at_null:
  "ParseTag (map (link no_config) [element ''zz'' [] [], number ''1'']) False (new_MathParser [])
     = Some ([], new_MathParser [])
   \<and> map_option (\<lambda>r. map GetValue (fst r))
       (ParseTag (map (link no_config) [number ''1'']) False (new_MathParser []))
     = Some [wx ''1'']"
  by code_simp

section \<open>Sectioning levels\<close>

lemma ParseEditorTag_cell: "\<exists>c. ParseEditorTag node = [c]"
  by (simp add: ParseEditorTag_def Let_def)

lemma section_children_null_deref:
  "section_children children g st = None \<Longrightarrow> \<exists>c \<in> set children. GetName (raw c) = wx ''fold''"
proof (induction children arbitrary: g st)
  case Nil
  then show ?case by simp
next
  case (Cons c children)
  obtain e where e: "ParseEditorTag (raw c) = [e]"
    using ParseEditorTag_cell by blast
  show ?case
  proof (cases "GetName (raw c) = wx ''fold''")
    case True
    then show ?thesis by simp
  next
    case False
    with Cons.prems e have "section_children children
        (if GetName (raw c) = wx ''editor'' then SetEditableContent (GetValue e) g else g) st
          = None"
      by (simp split: if_splits)
    with Cons.IH show ?thesis by auto
  qed
qed

text \<open>
  The choice of the block type. For a block node whose \<open>type\<close> is \<open>subsection\<close>, a
  call of \<open>ParseCellTag\<close> that returns gives one group cell: a sub-subsection block if
  the attribute \<open>sectioning_level\<close> is \<open>4\<close>, a subsection block for every other value
  and when the attribute is absent (it then reads as \<open>0\<close>). A call that does not return
  has a \<open>fold\<close> child.
\<close>

lemma ParseCellTag_subsection_block:
  assumes "GetAttribute node (wx ''type'') (wx ''text'') = wx ''subsection''"
  shows "case ParseCellTag node children st of
           None \<Rightarrow> \<exists>c \<in> set children. GetName (raw c) = wx ''fold''
         | Some (r, st') \<Rightarrow>
             \<exists>editable out hidden hide.
               r = [Cell new_base
                      (GroupCell
                         (if GetAttribute node (wx ''sectioning_level'') (wx ''0'') = wx ''4''
                          then GC_TYPE_SUBSUBSECTION else GC_TYPE_SUBSECTION)
                         editable out hidden hide)]"
proof -
  have ne: "wx ''subsection'' \<noteq> wx ''code''" "wx ''subsection'' \<noteq> wx ''image''"
    "wx ''subsection'' \<noteq> wx ''pagebreak''" "wx ''subsection'' \<noteq> wx ''text''"
    "wx ''subsection'' \<noteq> wx ''title''" "wx ''subsection'' \<noteq> wx ''section''"
    by (simp_all add: wx_def)
  show ?thesis
  proof (cases "section_children children ([], [], []) st")
    case None
    then show ?thesis
      using assms ne section_children_null_deref [OF None]
      by (simp add: ParseCellTag_def Let_def bind_run_def)
  next
    case (Some a)
    then show ?thesis
      using assms ne
      by (cases a)
        (auto simp add: ParseCellTag_def Let_def bind_run_def return_run_def new_GroupCell_def
          split: prod.split)
  qed
qed

lemma ParseCellTag_subsection_block_witness:
  "GetAttribute
       (element ''cell'' [(''type'', ''subsection''), (''sectioning_level'', ''4'')]
          [element ''editor'' [(''type'', ''subsection'')]
             [element ''line'' [] [text_node ''Notes'']]])
       (wx ''type'') (wx ''text'') = wx ''subsection''
   \<and> ParseCellTag
       (element ''cell'' [(''type'', ''subsection''), (''sectioning_level'', ''4'')]
          [element ''editor'' [(''type'', ''subsection'')]
             [element ''line'' [] [text_node ''Notes'']]])
       (map (link no_config)
          [element ''editor'' [(''type'', ''subsection'')]
             [element ''line'' [] [text_node ''Notes'']]])
       (new_MathParser [])
     = Some ([Cell new_base (GroupCell GC_TYPE_SUBSUBSECTION (wx ''Notes'') [] [] False)],
             new_MathParser [])"
proof -
  have h: "GetAttribute
       (element ''cell'' [(''type'', ''subsection''), (''sectioning_level'', ''4'')]
          [element ''editor'' [(''type'', ''subsection'')]
             [element ''line'' [] [text_node ''Notes'']]])
       (wx ''type'') (wx ''text'') = wx ''subsection''"
    by code_simp
  have e: "ParseCellTag
       (element ''cell'' [(''type'', ''subsection''), (''sectioning_level'', ''4'')]
          [element ''editor'' [(''type'', ''subsection'')]
             [element ''line'' [] [text_node ''Notes'']]])
       (map (link no_config)
          [element ''editor'' [(''type'', ''subsection'')]
             [element ''line'' [] [text_node ''Notes'']]])
       (new_MathParser [])
     = Some ([Cell new_base (GroupCell GC_TYPE_SUBSUBSECTION (wx ''Notes'') [] [] False)],
             new_MathParser [])"
    by code_simp
  show ?thesis
    using h e ParseCellTag_subsection_block [OF h,
        of "map (link no_config)
          [element ''editor'' [(''type'', ''subsection'')]
             [element ''line'' [] [text_node ''Notes'']]]" "new_MathParser []"]
    by simp
qed

text \<open>
  C9, on the code. The loop over the cells of a \<open>fold\<close> child writes
  \<open>last->m_next\<close> and \<open>last->m_next->m_previous\<close> without a test, although the
  parse of a folded cell may return \<open>NULL\<close> (the test \<open>if (tree)\<close> after the loop
  allows for it). For the subsection block whose fold holds the unknown tag \<open>zz\<close>
  and a page break, \<open>last\<close> is null when the loop reaches the page break: the call
  ends in a null pointer dereference and yields no block, neither through
  \<open>ParseCellTag\<close> nor through the \<open>cell\<close> branch of \<open>ParseTag\<close>. The same happens when
  a folded cell has a type this parser does not know, for which \<open>ParseCellTag\<close>
  returns \<open>NULL\<close>. With the page break alone in the fold the call returns the
  subsection block.
\<close>

theorem ParseCellTag_subsection_fold_null_deref:
  "ParseCellTag
     (folded_subsection [element ''zz'' [] [], element ''cell'' [(''type'', ''pagebreak'')] []])
     (map (link no_config)
        (GetChildren
           (folded_subsection
              [element ''zz'' [] [], element ''cell'' [(''type'', ''pagebreak'')] []])))
     (new_MathParser []) = None
   \<and> ParseTag
       (map (link no_config)
          [folded_subsection
             [element ''zz'' [] [], element ''cell'' [(''type'', ''pagebreak'')] []]])
       True (new_MathParser []) = None
   \<and> ParseTag
       (map (link no_config)
          [folded_subsection
             [element ''cell'' [(''type'', ''pagebreak'')] [],
              element ''cell'' [(''type'', ''heading5'')] []]])
       True (new_MathParser []) = None
   \<and> map_option (\<lambda>r. map body (fst r))
       (ParseTag
          (map (link no_config)
             [folded_subsection [element ''cell'' [(''type'', ''pagebreak'')] []]])
          True (new_MathParser []))
     = Some [GroupCell GC_TYPE_SUBSECTION [] []
               [Cell new_base (GroupCell GC_TYPE_PAGEBREAK [] [] [] False)] False]"
  by code_simp

section \<open>Text leaves are never null\<close>

lemma ParseText_cell:
  "\<exists>b text st'. ParseText env node style st = ([Cell b (TextCell text)], st')
     \<and> messageBoxes st' = messageBoxes st"
  by (auto simp add: ParseText_def Let_def new_TextCell_def SetType_def SetStyle_def
      SetHighlight_def SetValue_def split: option.split prod.split)

lemma ParseCharCode_cell:
  "\<exists>b text. ParseCharCode env node style st = ([Cell b (TextCell text)], st)"
  by (auto simp add: ParseCharCode_def Let_def new_TextCell_def SetType_def SetStyle_def
      SetHighlight_def SetValue_def split: option.split prod.split)

lemma ParseTag_single:
  assumes "handler node st = Some ([Cell b (TextCell text)], st')"
  shows "\<exists>b'. ParseTag [node] all st = Some ([Cell b' (TextCell text)], st')"
  using assms
  by (cases all)
    (auto simp add: ParseTag_def assign_or_append_def loop_result_def deref_def set_altCopy_def
      SetAltCopyText_def split: option.split prod.split)

lemma dispatch_v:
  "dispatch env (XmlNode XML_ELEMENT_NODE (wx ''v'') content attrs cs) children
     = total_run (ParseText env (first cs) TS_VARIABLE)"
  by (simp add: dispatch_def Let_def)

lemma dispatch_t:
  "dispatch env (XmlNode XML_ELEMENT_NODE (wx ''t'') content attrs cs) children
     = total_run (ParseText env (first cs)
         (if GetAttribute (XmlNode XML_ELEMENT_NODE (wx ''t'') content attrs cs) (wx ''type'') []
               = wx ''error'' then TS_ERROR else TS_DEFAULT))"
proof -
  have ne: "wx ''t'' \<noteq> wx ''v''" by (simp add: wx_def)
  show ?thesis by (simp add: dispatch_def Let_def ne)
qed

lemma dispatch_n:
  "dispatch env (XmlNode XML_ELEMENT_NODE (wx ''n'') content attrs cs) children
     = total_run (ParseText env (first cs) TS_NUMBER)"
proof -
  have ne: "wx ''n'' \<noteq> wx ''v''" "wx ''n'' \<noteq> wx ''t''" by (simp_all add: wx_def)
  show ?thesis by (simp add: dispatch_def Let_def ne)
qed

lemma leaf_dispatch:
  assumes "tag \<in> {wx ''v'', wx ''t'', wx ''n''}"
  shows "\<exists>style. dispatch env (XmlNode XML_ELEMENT_NODE tag content attrs cs) children
           = total_run (ParseText env (first cs) style)"
proof -
  from assms consider "tag = wx ''v''" | "tag = wx ''t''" | "tag = wx ''n''" by blast
  then show ?thesis
  proof cases
    case 1
    then show ?thesis using dispatch_v by blast
  next
    case 2
    then show ?thesis using dispatch_t by blast
  next
    case 3
    then show ?thesis using dispatch_n by blast
  qed
qed

text \<open>
  C10. \<open>ParseText\<close> and \<open>ParseCharCode\<close> return a pointer to one text cell for every
  node pointer, style and parser state; for a null node and for a node with empty
  content it is a new text cell, whose value is empty. So a call of \<open>ParseTag\<close> on a
  \<open>v\<close>, \<open>t\<close> or \<open>n\<close> element returns one text cell in either mode and shows no
  message box: the loop never finds \<open>cell\<close> null after such a node.
\<close>

theorem text_leaves_never_null:
  "(\<exists>b text. fst (ParseText env node style st) = [Cell b (TextCell text)])
   \<and> fst (ParseText env None style st) = [new_TextCell []]
   \<and> fst (ParseText env (Some (XmlNode ty nm [] attrs cs)) style st) = [new_TextCell []]
   \<and> (\<exists>b text. fst (ParseCharCode env node style st) = [Cell b (TextCell text)])
   \<and> fst (ParseCharCode env None style st) = [new_TextCell []]
   \<and> fst (ParseCharCode env (Some (XmlNode ty nm [] attrs cs)) style st) = [new_TextCell []]
   \<and> GetValue (new_TextCell []) = []
   \<and> (tag \<in> {wx ''v'', wx ''t'', wx ''n''} \<longrightarrow>
        (\<exists>b text st'.
           ParseTag [link env (XmlNode XML_ELEMENT_NODE tag content attrs cs)] all st
             = Some ([Cell b (TextCell text)], st')
           \<and> messageBoxes st' = messageBoxes st))"
proof (intro conjI impI)
  show "\<exists>b text. fst (ParseText env node style st) = [Cell b (TextCell text)]"
    using ParseText_cell [of env node style st] by auto
  show "\<exists>b text. fst (ParseCharCode env node style st) = [Cell b (TextCell text)]"
    using ParseCharCode_cell [of env node style st] by auto
next
  assume tag: "tag \<in> {wx ''v'', wx ''t'', wx ''n''}"
  let ?node = "XmlNode XML_ELEMENT_NODE tag content attrs cs"
  obtain style' where
    d: "handler (link env ?node) = total_run (ParseText env (first cs) style')"
    using leaf_dispatch [OF tag, of env content attrs cs "map (link env) cs"]
    by (auto simp add: handler_link simp del: link.simps)
  obtain b str st' where p: "ParseText env (first cs) style' st = ([Cell b (TextCell str)], st')"
    and m: "messageBoxes st' = messageBoxes st"
    using ParseText_cell [of env "first cs" style' st] by auto
  from d p have "handler (link env ?node) st = Some ([Cell b (TextCell str)], st')"
    by (simp add: total_run_def)
  from ParseTag_single [OF this] m
  show "\<exists>b text st'. ParseTag [link env ?node] all st = Some ([Cell b (TextCell text)], st')
           \<and> messageBoxes st' = messageBoxes st"
    by blast
qed (simp_all add: ParseText_def ParseCharCode_def GetValue_def new_TextCell_def)

theorem text_leaves_never_null_witness:
  "wx ''n'' \<in> {wx ''v'', wx ''t'', wx ''n''}
   \<and> ParseTag [link no_config (element ''n'' [] [])] True (new_MathParser [])
       = Some ([new_TextCell []], new_MathParser [])"
proof -
  have e: "ParseTag [link no_config (element ''n'' [] [])] True (new_MathParser [])
       = Some ([new_TextCell []], new_MathParser [])"
    by code_simp
  show ?thesis
    using e text_leaves_never_null [where tag = "wx ''n''" and env = no_config
        and content = "[]" and attrs = "[]" and cs = "[]" and all = True
        and st = "new_MathParser []"]
    by (simp add: element_def del: link.simps)
qed

end
